theory Spec2Isabelle
  imports Main "HOL-Library.Word"
begin

unbundle bit_operations_syntax

section \<open>The bytecode decoder of \<^verbatim>\<open>deps/v8/src/interpreter/bytecode-decoder.cc\<close>\<close>

text \<open>
  The file holds the four static functions of \<^verbatim>\<open>BytecodeDecoder\<close>:
  \<^verbatim>\<open>DecodeRegisterOperand\<close>, \<^verbatim>\<open>DecodeSignedOperand\<close>, \<^verbatim>\<open>DecodeUnsignedOperand\<close> and
  \<^verbatim>\<open>Decode\<close>. Everything they call in \<^verbatim>\<open>Bytecodes\<close> and \<^verbatim>\<open>Register\<close> lives in other
  files of V8; those functions are the fields of the record \<open>env\<close> below, so every
  theorem holds for any opcode table. The C++ output stream is modelled with its
  formatting state, because \<^verbatim>\<open>Decode\<close> changes it.
\<close>

subsection \<open>Enumerations\<close>

text \<open>
  \<^verbatim>\<open>OperandType\<close> has exactly the thirteen enumerators that the \<^verbatim>\<open>switch\<close> of
  \<^verbatim>\<open>Decode\<close> names (it has no \<^verbatim>\<open>default:\<close>). \<^verbatim>\<open>OperandSize\<close> has the four that
  the \<^verbatim>\<open>switch\<close> of the two value decoders names. Both have a \<^verbatim>\<open>kNone\<close>; they are
  written \<open>OperandSize.kNone\<close> and \<open>OperandType.kNone\<close>.
\<close>

datatype OperandScale = kSingle | kDouble | kQuadruple

datatype OperandSize = kNone | kByte | kShort | kQuad

datatype OperandType =
    kNone | kFlag8 | kIntrinsicId | kIdx | kImm | kRegCount | kRuntimeId
  | kMaybeReg | kReg | kRegPair | kRegOut | kRegOutPair | kRegOutTriple

text \<open>
  A failed \<^verbatim>\<open>DCHECK\<close> and a reached \<^verbatim>\<open>UNREACHABLE()\<close> both abort the process; they are
  the two error values of the model. \<^verbatim>\<open>DCHECK\<close> checks in a debug build only, which is
  the parameter \<open>debug_build\<close> below.
\<close>

datatype error = DCheckFailed | Unreachable

text \<open>
  Modelled from the spec: \<^verbatim>\<open>class Register\<close> is declared in another file of V8. The
  spec's register is an integer index to which an offset can be added; the decoder
  builds one with \<^verbatim>\<open>Register(int)\<close> and reads it with \<^verbatim>\<open>index()\<close>.
\<close>

datatype Register = Register (index: int)

subsection \<open>The output stream\<close>

text \<open>
  \<^verbatim>\<open>std::ios\<close> holds the formatting state that \<^verbatim>\<open>copyfmt\<close> copies: the flags, the fill
  character, the field width and the precision. \<^verbatim>\<open>std::ostream\<close> adds the sink, here
  the text written so far. The locale is the classic one: digits are not grouped.
\<close>

datatype fmtflag =
    ios_boolalpha | ios_dec | ios_fixed | ios_hex | ios_internal | ios_left | ios_oct
  | ios_right | ios_scientific | ios_showbase | ios_showpoint | ios_showpos | ios_skipws
  | ios_unitbuf | ios_uppercase

record ios =
  flags :: "fmtflag set"
  fill :: char
  width :: int
  precision :: int

record ostream = ios +
  sink :: string

text \<open>
  \<^verbatim>\<open>std::ios saved_format(nullptr)\<close>: the constructor calls \<^verbatim>\<open>init\<close>, whose
  postconditions are \<^verbatim>\<open>flags() == skipws | dec\<close>, \<^verbatim>\<open>width() == 0\<close>,
  \<^verbatim>\<open>precision() == 6\<close> and \<^verbatim>\<open>fill() == ' '\<close>.
\<close>

definition ios_init :: ios where
  "ios_init = \<lparr>flags = {ios_skipws, ios_dec}, fill = CHR '' '', width = 0, precision = 6\<rparr>"

text \<open>\<^verbatim>\<open>this.copyfmt(rhs)\<close> copies the formatting state of \<^verbatim>\<open>rhs\<close>, not its sink.\<close>

definition copyfmt :: "'a ios_scheme \<Rightarrow> 'b ios_scheme \<Rightarrow> 'a ios_scheme" where
  "copyfmt this rhs =
     this\<lparr>flags := flags rhs, fill := fill rhs, width := width rhs,
          precision := precision rhs\<rparr>"

text \<open>
  Padding of a formatted field: \<open>pre\<close> is the sign or the \<^verbatim>\<open>0x\<close> prefix, after which
  \<^verbatim>\<open>internal\<close> adjustment pads; \<^verbatim>\<open>left\<close> pads after the field; everything else pads
  before it.
\<close>

definition padded :: "'a ios_scheme \<Rightarrow> string \<Rightarrow> string \<Rightarrow> string" where
  "padded os pre body =
     (let f = replicate (nat (width os - int (length pre + length body))) (fill os) in
      if ios_left \<in> flags os \<and> ios_right \<notin> flags os \<and> ios_internal \<notin> flags os
        then pre @ body @ f
      else if ios_internal \<in> flags os \<and> ios_left \<notin> flags os \<and> ios_right \<notin> flags os
        then pre @ f @ body
      else f @ pre @ body)"

text \<open>\<^verbatim>\<open>os << "..."\<close> and \<^verbatim>\<open>os << ' '\<close>: padded to the width, which is then reset.\<close>

definition put_string :: "ostream \<Rightarrow> string \<Rightarrow> ostream" where
  "put_string os s =
     os\<lparr>sink := sink os @ padded os [] s, width := 0\<rparr>"

definition put_char :: "ostream \<Rightarrow> char \<Rightarrow> ostream" where
  "put_char os c = put_string os [c]"

text \<open>
  The digits of a number, most significant first. The base is 8, 10 or 16 wherever
  \<open>to_digits\<close> is called.
\<close>

definition digit_char :: "bool \<Rightarrow> nat \<Rightarrow> char" where
  "digit_char upper d =
     (if upper then ''0123456789ABCDEF'' else ''0123456789abcdef'') ! d"

function to_digits :: "nat \<Rightarrow> bool \<Rightarrow> nat \<Rightarrow> string" where
  "to_digits base upper n =
     (if base < 2 \<or> n < base then [digit_char upper n]
      else to_digits base upper (n div base) @ [digit_char upper (n mod base)])"
  by pat_completeness auto
termination
  by (relation "measure (\<lambda>(base, upper, n). n)") auto

declare to_digits.simps [simp del]

text \<open>
  \<^verbatim>\<open>os << uint32_t\<close>: \<^verbatim>\<open>num_put\<close> converts with \<^verbatim>\<open>%o\<close>, \<^verbatim>\<open>%x\<close>, \<^verbatim>\<open>%X\<close> or \<^verbatim>\<open>%u\<close> as
  the base field and \<^verbatim>\<open>uppercase\<close> say; \<^verbatim>\<open>showbase\<close> adds \<^verbatim>\<open>0x\<close> or a leading \<^verbatim>\<open>0\<close> to
  a number that is not zero; \<^verbatim>\<open>showpos\<close> does nothing to an unsigned conversion.
\<close>

definition is_oct :: "'a ios_scheme \<Rightarrow> bool" where
  "is_oct os \<longleftrightarrow> ios_oct \<in> flags os \<and> ios_dec \<notin> flags os \<and> ios_hex \<notin> flags os"

definition is_hex :: "'a ios_scheme \<Rightarrow> bool" where
  "is_hex os \<longleftrightarrow> ios_hex \<in> flags os \<and> ios_dec \<notin> flags os \<and> ios_oct \<notin> flags os"

definition put_uint32 :: "ostream \<Rightarrow> 32 word \<Rightarrow> ostream" where
  "put_uint32 os v =
     (let upper = (ios_uppercase \<in> flags os);
          base = (if is_oct os then 8 else if is_hex os then 16 else 10);
          digits = to_digits base upper (unat v);
          shown = (ios_showbase \<in> flags os \<and> v \<noteq> 0);
          pre = (if is_hex os \<and> shown then (if upper then ''0X'' else ''0x'') else []);
          body = (if is_oct os \<and> shown then ''0'' @ digits else digits)
      in os\<lparr>sink := sink os @ padded os pre body, width := 0\<rparr>)"

text \<open>
  \<^verbatim>\<open>os << int32_t\<close>: in base 8 or 16 the value is printed as the unsigned number with
  the same 32 bits; in base 10 with its sign, and with \<^verbatim>\<open>+\<close> under \<^verbatim>\<open>showpos\<close>.
\<close>

definition put_int32 :: "ostream \<Rightarrow> 32 word \<Rightarrow> ostream" where
  "put_int32 os v =
     (if is_oct os \<or> is_hex os then put_uint32 os v
      else
        let pre = (if sint v < 0 then ''-'' else if ios_showpos \<in> flags os then ''+'' else []);
            body = to_digits 10 False (nat \<bar>sint v\<bar>)
        in os\<lparr>sink := sink os @ padded os pre body, width := 0\<rparr>)"

text \<open>\<^verbatim>\<open>os << std::setw(n)\<close>.\<close>

definition setw :: "ostream \<Rightarrow> int \<Rightarrow> ostream" where
  "setw os n = os\<lparr>width := n\<rparr>"

subsection \<open>Memory\<close>

text \<open>
  \<^verbatim>\<open>const uint8_t* bytecode_start\<close> is a pointer without a length. The memory it
  points into is a function from the offset relative to \<^verbatim>\<open>bytecode_start\<close> to the
  byte stored there; a pointer derived from it is its offset. The decoder checks no
  bound, and neither does the model: a read beyond the buffer, undefined in C++, yields
  whatever byte the memory holds there.
\<close>

type_synonym memory = "int \<Rightarrow> 8 word"

text \<open>
  Modelled from the spec: \<^verbatim>\<open>ReadUnalignedUInt16\<close> of \<^verbatim>\<open>src/utils.h\<close> is not among the
  sources. The spec says the decoders read 2 bytes from the operand's byte offset; they
  are taken in the byte order of the target, which is the parameter \<open>big_endian\<close>.
\<close>

definition ReadUnalignedUInt16 :: "bool \<Rightarrow> memory \<Rightarrow> int \<Rightarrow> 16 word" where
  "ReadUnalignedUInt16 big_endian mem p =
     (if big_endian
      then push_bit 8 (ucast (mem p)) OR ucast (mem (p + 1))
      else push_bit 8 (ucast (mem (p + 1))) OR ucast (mem p))"

text \<open>
  Modelled from the spec: \<^verbatim>\<open>ReadUnalignedUInt32\<close> of \<^verbatim>\<open>src/utils.h\<close> is not among the
  sources. The spec says the decoders read 4 bytes from the operand's byte offset, again
  in the byte order of the target.
\<close>

definition ReadUnalignedUInt32 :: "bool \<Rightarrow> memory \<Rightarrow> int \<Rightarrow> 32 word" where
  "ReadUnalignedUInt32 big_endian mem p =
     (if big_endian
      then push_bit 24 (ucast (mem p)) OR push_bit 16 (ucast (mem (p + 1)))
           OR push_bit 8 (ucast (mem (p + 2))) OR ucast (mem (p + 3))
      else push_bit 24 (ucast (mem (p + 3))) OR push_bit 16 (ucast (mem (p + 2)))
           OR push_bit 8 (ucast (mem (p + 1))) OR ucast (mem p))"

subsection \<open>The collaborators: \<^verbatim>\<open>Bytecodes\<close> and \<^verbatim>\<open>Register\<close>\<close>

text \<open>
  The static functions of \<^verbatim>\<open>Bytecodes\<close> and \<^verbatim>\<open>Register\<close> that the decoder calls, with
  the argument and result types of the calls. \<open>'bc\<close> is the enumeration \<^verbatim>\<open>Bytecode\<close>.
  C++ \<^verbatim>\<open>int\<close> is \<open>int\<close>: the decoder counts operands and bytes with it and adds
  \<^verbatim>\<open>range\<close> to a register index; signed overflow, undefined in C++, is not modelled.
  \<open>big_endian\<close> and \<open>debug_build\<close> are the two facts about the build that the code
  depends on.
\<close>

record 'bc env =
  FromByte :: "8 word \<Rightarrow> 'bc"
  IsPrefixScalingBytecode :: "'bc \<Rightarrow> bool"
  PrefixBytecodeToOperandScale :: "'bc \<Rightarrow> OperandScale"
  Size :: "'bc \<Rightarrow> OperandScale \<Rightarrow> int"
  ToString :: "'bc \<Rightarrow> OperandScale \<Rightarrow> string"
  IsDebugBreak :: "'bc \<Rightarrow> bool"
  NumberOfOperands :: "'bc \<Rightarrow> int"
  GetOperandType :: "'bc \<Rightarrow> int \<Rightarrow> OperandType"
  GetOperandOffset :: "'bc \<Rightarrow> int \<Rightarrow> OperandScale \<Rightarrow> int"
  SizeOfOperand :: "OperandType \<Rightarrow> OperandScale \<Rightarrow> OperandSize"
  IsUnsignedOperandType :: "OperandType \<Rightarrow> bool"
  IsRegisterOperandType :: "OperandType \<Rightarrow> bool"
  FromOperand :: "32 word \<Rightarrow> Register"
  Register_ToString :: "Register \<Rightarrow> int \<Rightarrow> string"
  big_endian :: bool
  debug_build :: bool

subsection \<open>The value decoders\<close>

text \<open>
  \<^verbatim>\<open>int32_t\<close> and \<^verbatim>\<open>uint32_t\<close> are both \<open>32 word\<close>; \<open>sint\<close> reads the first, \<open>uint\<close>
  the second. \<^verbatim>\<open>static_cast<int8_t>\<close> followed by the conversion to the \<^verbatim>\<open>int32_t\<close>
  result is the signed cast \<open>scast\<close>; the conversion of \<^verbatim>\<open>uint8_t\<close> to \<^verbatim>\<open>uint32_t\<close> is
  \<open>ucast\<close>.
\<close>

definition DecodeSignedOperand ::
  "'bc env \<Rightarrow> memory \<Rightarrow> int \<Rightarrow> OperandType \<Rightarrow> OperandScale \<Rightarrow> error + 32 word" where
  "DecodeSignedOperand md mem operand_start operand_type operand_scale =
     (if debug_build md \<and> IsUnsignedOperandType md operand_type then Inl DCheckFailed
      else case SizeOfOperand md operand_type operand_scale of
             kByte \<Rightarrow> Inr (scast (mem operand_start))
           | kShort \<Rightarrow> Inr (scast (ReadUnalignedUInt16 (big_endian md) mem operand_start))
           | kQuad \<Rightarrow> Inr (ReadUnalignedUInt32 (big_endian md) mem operand_start)
           | OperandSize.kNone \<Rightarrow> Inl Unreachable)"

definition DecodeUnsignedOperand ::
  "'bc env \<Rightarrow> memory \<Rightarrow> int \<Rightarrow> OperandType \<Rightarrow> OperandScale \<Rightarrow> error + 32 word" where
  "DecodeUnsignedOperand md mem operand_start operand_type operand_scale =
     (if debug_build md \<and> \<not> IsUnsignedOperandType md operand_type then Inl DCheckFailed
      else case SizeOfOperand md operand_type operand_scale of
             kByte \<Rightarrow> Inr (ucast (mem operand_start))
           | kShort \<Rightarrow> Inr (ucast (ReadUnalignedUInt16 (big_endian md) mem operand_start))
           | kQuad \<Rightarrow> Inr (ReadUnalignedUInt32 (big_endian md) mem operand_start)
           | OperandSize.kNone \<Rightarrow> Inl Unreachable)"

definition DecodeRegisterOperand ::
  "'bc env \<Rightarrow> memory \<Rightarrow> int \<Rightarrow> OperandType \<Rightarrow> OperandScale \<Rightarrow> error + Register" where
  "DecodeRegisterOperand md mem operand_start operand_type operand_scale =
     (if debug_build md \<and> \<not> IsRegisterOperandType md operand_type then Inl DCheckFailed
      else case DecodeSignedOperand md mem operand_start operand_type operand_scale of
             Inl e \<Rightarrow> Inl e
           | Inr operand \<Rightarrow> Inr (FromOperand md operand))"

subsection \<open>\<^verbatim>\<open>Decode\<close>\<close>

text \<open>
  The first loop: \<^verbatim>\<open>os << std::setw(2) << static_cast<uint32_t>(bytecode_start[i]) << ' '\<close>
  for \<^verbatim>\<open>i\<close> from 0 while \<^verbatim>\<open>i < prefix_offset + bytecode_size\<close>.
\<close>

function hex_loop :: "ostream \<Rightarrow> memory \<Rightarrow> int \<Rightarrow> int \<Rightarrow> ostream" where
  "hex_loop os bytecode_start i n =
     (if i < n
      then hex_loop (put_char (put_uint32 (setw os 2) (ucast (bytecode_start i))) CHR '' '')
             bytecode_start (i + 1) n
      else os)"
  by pat_completeness auto
termination
  by (relation "measure (\<lambda>(os, bytecode_start, i, n). nat (n - i))") auto

declare hex_loop.simps [simp del]

text \<open>
  The second loop: three blanks for \<^verbatim>\<open>i\<close> from \<^verbatim>\<open>prefix_offset + bytecode_size\<close> while
  \<^verbatim>\<open>i < kBytecodeColumnSize\<close>.
\<close>

definition kBytecodeColumnSize :: int where
  "kBytecodeColumnSize = 6"

function column_loop :: "ostream \<Rightarrow> int \<Rightarrow> ostream" where
  "column_loop os i =
     (if i < kBytecodeColumnSize then column_loop (put_string os ''   '') (i + 1) else os)"
  by pat_completeness auto
termination
  by (relation "measure (\<lambda>(os, i). nat (kBytecodeColumnSize - i))") auto

declare column_loop.simps [simp del]

text \<open>
  The body of the operand \<^verbatim>\<open>switch\<close>. It returns the stream and the variable
  \<^verbatim>\<open>range\<close> (here \<open>rng\<close>), which is declared before the loop and lives across its
  iterations.
  \<^verbatim>\<open>case kRegOutTriple\<close> adds 1 to \<^verbatim>\<open>range\<close> and falls through into the case of the
  pairs, which adds 1 again.
\<close>

definition print_register_range ::
  "'bc env \<Rightarrow> ostream \<Rightarrow> memory \<Rightarrow> int \<Rightarrow> int \<Rightarrow> OperandType \<Rightarrow> OperandScale \<Rightarrow> int
   \<Rightarrow> error + ostream \<times> int" where
  "print_register_range md os mem parameter_count operand_start op_type operand_scale rng0 =
     (let rng = rng0 + 1 in
      case DecodeRegisterOperand md mem operand_start op_type operand_scale of
        Inl e \<Rightarrow> Inl e
      | Inr first_reg \<Rightarrow>
          let last_reg = Register (index first_reg + rng);
              os = put_string os (Register_ToString md first_reg parameter_count);
              os = put_string os ''-'';
              os = put_string os (Register_ToString md last_reg parameter_count)
          in Inr (os, rng))"

fun print_operand ::
  "'bc env \<Rightarrow> ostream \<Rightarrow> memory \<Rightarrow> int \<Rightarrow> int \<Rightarrow> OperandType \<Rightarrow> OperandScale \<Rightarrow> int
   \<Rightarrow> error + ostream \<times> int" where
  "print_operand md os mem parameter_count operand_start kRegCount operand_scale rng =
     (case DecodeUnsignedOperand md mem operand_start kRegCount operand_scale of
        Inl e \<Rightarrow> Inl e
      | Inr v \<Rightarrow> Inr (put_uint32 (put_string os ''#'') v, rng))"
| "print_operand md os mem parameter_count operand_start kIdx operand_scale rng =
     (case DecodeUnsignedOperand md mem operand_start kIdx operand_scale of
        Inl e \<Rightarrow> Inl e
      | Inr v \<Rightarrow> Inr (put_string (put_uint32 (put_string os ''['') v) '']'', rng))"
| "print_operand md os mem parameter_count operand_start kRuntimeId operand_scale rng =
     (case DecodeUnsignedOperand md mem operand_start kRuntimeId operand_scale of
        Inl e \<Rightarrow> Inl e
      | Inr v \<Rightarrow> Inr (put_string (put_uint32 (put_string os ''['') v) '']'', rng))"
| "print_operand md os mem parameter_count operand_start kIntrinsicId operand_scale rng =
     (case DecodeUnsignedOperand md mem operand_start kIntrinsicId operand_scale of
        Inl e \<Rightarrow> Inl e
      | Inr v \<Rightarrow> Inr (put_string (put_uint32 (put_string os ''['') v) '']'', rng))"
| "print_operand md os mem parameter_count operand_start kImm operand_scale rng =
     (case DecodeSignedOperand md mem operand_start kImm operand_scale of
        Inl e \<Rightarrow> Inl e
      | Inr v \<Rightarrow> Inr (put_string (put_int32 (put_string os ''['') v) '']'', rng))"
| "print_operand md os mem parameter_count operand_start kFlag8 operand_scale rng =
     (case DecodeUnsignedOperand md mem operand_start kFlag8 operand_scale of
        Inl e \<Rightarrow> Inl e
      | Inr v \<Rightarrow> Inr (put_uint32 (put_string os ''#'') v, rng))"
| "print_operand md os mem parameter_count operand_start kMaybeReg operand_scale rng =
     (case DecodeRegisterOperand md mem operand_start kMaybeReg operand_scale of
        Inl e \<Rightarrow> Inl e
      | Inr reg \<Rightarrow> Inr (put_string os (Register_ToString md reg parameter_count), rng))"
| "print_operand md os mem parameter_count operand_start kReg operand_scale rng =
     (case DecodeRegisterOperand md mem operand_start kReg operand_scale of
        Inl e \<Rightarrow> Inl e
      | Inr reg \<Rightarrow> Inr (put_string os (Register_ToString md reg parameter_count), rng))"
| "print_operand md os mem parameter_count operand_start kRegOut operand_scale rng =
     (case DecodeRegisterOperand md mem operand_start kRegOut operand_scale of
        Inl e \<Rightarrow> Inl e
      | Inr reg \<Rightarrow> Inr (put_string os (Register_ToString md reg parameter_count), rng))"
| "print_operand md os mem parameter_count operand_start kRegOutTriple operand_scale rng =
     print_register_range md os mem parameter_count operand_start kRegOutTriple operand_scale
       (rng + 1)"
| "print_operand md os mem parameter_count operand_start kRegOutPair operand_scale rng =
     print_register_range md os mem parameter_count operand_start kRegOutPair operand_scale rng"
| "print_operand md os mem parameter_count operand_start kRegPair operand_scale rng =
     print_register_range md os mem parameter_count operand_start kRegPair operand_scale rng"
| "print_operand md os mem parameter_count operand_start OperandType.kNone operand_scale rng =
     Inl Unreachable"

text \<open>
  The operand loop, \<^verbatim>\<open>for (int i = 0; i < number_of_operands; i++)\<close>, entered with
  \<^verbatim>\<open>i = 0\<close> and \<^verbatim>\<open>range = 0\<close>. An abort in the body ends it.
\<close>

function operand_loop ::
  "'bc env \<Rightarrow> memory \<Rightarrow> int \<Rightarrow> 'bc \<Rightarrow> OperandScale \<Rightarrow> int \<Rightarrow> int \<Rightarrow> ostream \<Rightarrow> int \<Rightarrow> int
   \<Rightarrow> error + ostream" where
  "operand_loop md bytecode_start parameter_count bytecode operand_scale prefix_offset
     number_of_operands os rng i =
     (if i < number_of_operands then
        let op_type = GetOperandType md bytecode i;
            operand_offset = GetOperandOffset md bytecode i operand_scale;
            operand_start = prefix_offset + operand_offset
        in case print_operand md os bytecode_start parameter_count operand_start op_type
                  operand_scale rng of
             Inl e \<Rightarrow> Inl e
           | Inr (os', rng') \<Rightarrow>
               operand_loop md bytecode_start parameter_count bytecode operand_scale
                 prefix_offset number_of_operands
                 (if i \<noteq> number_of_operands - 1 then put_string os' '', '' else os')
                 rng' (i + 1)
      else Inr os)"
  by pat_completeness auto
termination
  by (relation "measure (\<lambda>(md, bytecode_start, parameter_count, bytecode, operand_scale,
        prefix_offset, number_of_operands, os, rng, i). nat (number_of_operands - i))") auto

declare operand_loop.simps [simp del]

text \<open>
  \<^verbatim>\<open>Decode\<close>, statement by statement. \<^verbatim>\<open>saved_format.copyfmt(saved_format)\<close> copies the
  fresh \<^verbatim>\<open>std::ios\<close> onto itself; the stream \<^verbatim>\<open>os\<close> is not read there.
\<close>

definition Decode :: "'bc env \<Rightarrow> ostream \<Rightarrow> memory \<Rightarrow> int \<Rightarrow> error + ostream" where
  "Decode md os bytecode_start parameter_count =
     (let bytecode = FromByte md (bytecode_start 0);
          (prefix_offset, operand_scale, bytecode) =
            (if IsPrefixScalingBytecode md bytecode
             then (1, PrefixBytecodeToOperandScale md bytecode, FromByte md (bytecode_start 1))
             else (0, kSingle, bytecode));
          saved_format = ios_init;
          saved_format = copyfmt saved_format saved_format;
          os = os\<lparr>fill := CHR ''0''\<rparr>;
          os = os\<lparr>flags := {ios_hex}\<rparr>;
          bytecode_size = Size md bytecode operand_scale;
          os = hex_loop os bytecode_start 0 (prefix_offset + bytecode_size);
          os = copyfmt os saved_format;
          os = column_loop os (prefix_offset + bytecode_size);
          os = put_string (put_string os (ToString md bytecode operand_scale)) '' ''
      in if IsDebugBreak md bytecode then Inr os
         else operand_loop md bytecode_start parameter_count bytecode operand_scale
                prefix_offset (NumberOfOperands md bytecode) os 0 0)"

subsection \<open>The text of one instruction\<close>

text \<open>
  What the spec says \<^verbatim>\<open>Decode\<close> writes, as plain functions of the opcode table and
  the buffer. The theorems below compare \<open>Decode\<close> with them.
\<close>

text \<open>A number in base 10, with \<^verbatim>\<open>-\<close> in front when it is negative.\<close>

definition decimal :: "int \<Rightarrow> string" where
  "decimal x = (if x < 0 then ''-'' else []) @ to_digits 10 False (nat \<bar>x\<bar>)"

text \<open>One byte as a two-digit hexadecimal group and the blank that follows it.\<close>

definition hex_group :: "8 word \<Rightarrow> string" where
  "hex_group b =
     [digit_char False (unat b div 16), digit_char False (unat b mod 16), CHR '' '']"

text \<open>The groups of the bytes at the offsets \<open>i, \<dots>, n - 1\<close>.\<close>

definition hex_groups :: "memory \<Rightarrow> int \<Rightarrow> int \<Rightarrow> string" where
  "hex_groups mem i n = concat (map (\<lambda>k. hex_group (mem k)) [i..n - 1])"

text \<open>
  The blank groups that fill the column of \<open>kBytecodeColumnSize\<close> groups from group
  \<open>i\<close> on.
\<close>

definition blank_groups :: "int \<Rightarrow> string" where
  "blank_groups i = concat (replicate (nat (kBytecodeColumnSize - i)) ''   '')"

text \<open>
  Step 1 of the spec's procedure: the prefix length, the operand scale and the opcode
  that the first one or two bytes denote.
\<close>

definition prefix_offset_of :: "'bc env \<Rightarrow> memory \<Rightarrow> int" where
  "prefix_offset_of md mem =
     (if IsPrefixScalingBytecode md (FromByte md (mem 0)) then 1 else 0)"

definition operand_scale_of :: "'bc env \<Rightarrow> memory \<Rightarrow> OperandScale" where
  "operand_scale_of md mem =
     (if IsPrefixScalingBytecode md (FromByte md (mem 0))
      then PrefixBytecodeToOperandScale md (FromByte md (mem 0)) else kSingle)"

definition bytecode_of :: "'bc env \<Rightarrow> memory \<Rightarrow> 'bc" where
  "bytecode_of md mem =
     (if IsPrefixScalingBytecode md (FromByte md (mem 0))
      then FromByte md (mem 1) else FromByte md (mem 0))"

text \<open>
  By how much an operand of a type makes \<^verbatim>\<open>range\<close> grow, and the value of \<^verbatim>\<open>range\<close>
  after the operands \<open>i, \<dots>, k\<close> when it was 0 before operand \<open>i\<close>.
\<close>

fun range_length :: "OperandType \<Rightarrow> int" where
  "range_length kRegOutTriple = 2"
| "range_length kRegOutPair = 1"
| "range_length kRegPair = 1"
| "range_length t = 0"

definition range_sum :: "'bc env \<Rightarrow> 'bc \<Rightarrow> int \<Rightarrow> int \<Rightarrow> int" where
  "range_sum md bytecode i k =
     sum_list (map (\<lambda>j. range_length (GetOperandType md bytecode j)) [i..k])"

text \<open>A register range \<^verbatim>\<open>first-last\<close> whose last index is \<open>n\<close> above the first.\<close>

definition register_range_text :: "'bc env \<Rightarrow> int \<Rightarrow> Register \<Rightarrow> int \<Rightarrow> string" where
  "register_range_text md parameter_count first_reg n =
     Register_ToString md first_reg parameter_count @ ''-'' @
     Register_ToString md (Register (index first_reg + n)) parameter_count"

text \<open>
  The text form of an operand of each type, as the spec lists them. \<open>p\<close> is the offset
  of the operand in the buffer; the decoded value is the one the decoder returns.
  For a register range, \<open>n\<close> is the distance from the first to the last register.
\<close>

fun operand_text ::
  "'bc env \<Rightarrow> memory \<Rightarrow> int \<Rightarrow> int \<Rightarrow> OperandType \<Rightarrow> OperandScale \<Rightarrow> int \<Rightarrow> string" where
  "operand_text md mem parameter_count p kRegCount s n =
     ''#'' @ decimal (uint (projr (DecodeUnsignedOperand md mem p kRegCount s)))"
| "operand_text md mem parameter_count p kFlag8 s n =
     ''#'' @ decimal (uint (projr (DecodeUnsignedOperand md mem p kFlag8 s)))"
| "operand_text md mem parameter_count p kIdx s n =
     ''['' @ decimal (uint (projr (DecodeUnsignedOperand md mem p kIdx s))) @ '']''"
| "operand_text md mem parameter_count p kRuntimeId s n =
     ''['' @ decimal (uint (projr (DecodeUnsignedOperand md mem p kRuntimeId s))) @ '']''"
| "operand_text md mem parameter_count p kIntrinsicId s n =
     ''['' @ decimal (uint (projr (DecodeUnsignedOperand md mem p kIntrinsicId s))) @ '']''"
| "operand_text md mem parameter_count p kImm s n =
     ''['' @ decimal (sint (projr (DecodeSignedOperand md mem p kImm s))) @ '']''"
| "operand_text md mem parameter_count p kReg s n =
     Register_ToString md (projr (DecodeRegisterOperand md mem p kReg s)) parameter_count"
| "operand_text md mem parameter_count p kRegOut s n =
     Register_ToString md (projr (DecodeRegisterOperand md mem p kRegOut s)) parameter_count"
| "operand_text md mem parameter_count p kMaybeReg s n =
     Register_ToString md (projr (DecodeRegisterOperand md mem p kMaybeReg s)) parameter_count"
| "operand_text md mem parameter_count p kRegPair s n =
     register_range_text md parameter_count
       (projr (DecodeRegisterOperand md mem p kRegPair s)) n"
| "operand_text md mem parameter_count p kRegOutPair s n =
     register_range_text md parameter_count
       (projr (DecodeRegisterOperand md mem p kRegOutPair s)) n"
| "operand_text md mem parameter_count p kRegOutTriple s n =
     register_range_text md parameter_count
       (projr (DecodeRegisterOperand md mem p kRegOutTriple s)) n"
| "operand_text md mem parameter_count p OperandType.kNone s n = []"

text \<open>The abort, if any, that decoding an operand of each type ends in.\<close>

definition result_error :: "error + 'a \<Rightarrow> error option" where
  "result_error r = (case r of Inl e \<Rightarrow> Some e | Inr v \<Rightarrow> None)"

fun operand_error ::
  "'bc env \<Rightarrow> memory \<Rightarrow> int \<Rightarrow> OperandType \<Rightarrow> OperandScale \<Rightarrow> error option" where
  "operand_error md mem p OperandType.kNone s = Some Unreachable"
| "operand_error md mem p kImm s = result_error (DecodeSignedOperand md mem p kImm s)"
| "operand_error md mem p kRegCount s =
     result_error (DecodeUnsignedOperand md mem p kRegCount s)"
| "operand_error md mem p kFlag8 s = result_error (DecodeUnsignedOperand md mem p kFlag8 s)"
| "operand_error md mem p kIdx s = result_error (DecodeUnsignedOperand md mem p kIdx s)"
| "operand_error md mem p kRuntimeId s =
     result_error (DecodeUnsignedOperand md mem p kRuntimeId s)"
| "operand_error md mem p kIntrinsicId s =
     result_error (DecodeUnsignedOperand md mem p kIntrinsicId s)"
| "operand_error md mem p t s = result_error (DecodeRegisterOperand md mem p t s)"

fun first_error :: "error option list \<Rightarrow> error option" where
  "first_error [] = None"
| "first_error (None # xs) = first_error xs"
| "first_error (Some e # xs) = Some e"

text \<open>Texts joined with a separator between consecutive ones and none after the last.\<close>

fun join_sep :: "'a list \<Rightarrow> 'a list list \<Rightarrow> 'a list" where
  "join_sep sep [] = []"
| "join_sep sep [x] = x"
| "join_sep sep (x # y # ys) = x @ sep @ join_sep sep (y # ys)"

text \<open>The operands \<open>0, \<dots>, NumberOfOperands - 1\<close> in declared order.\<close>

definition operands_text ::
  "'bc env \<Rightarrow> memory \<Rightarrow> int \<Rightarrow> int \<Rightarrow> OperandScale \<Rightarrow> 'bc \<Rightarrow> string" where
  "operands_text md mem parameter_count prefix_offset scale bytecode =
     join_sep '', ''
       (map (\<lambda>k. operand_text md mem parameter_count
                    (prefix_offset + GetOperandOffset md bytecode k scale)
                    (GetOperandType md bytecode k) scale (range_sum md bytecode 0 k))
          [0..NumberOfOperands md bytecode - 1])"

definition operands_error ::
  "'bc env \<Rightarrow> memory \<Rightarrow> int \<Rightarrow> OperandScale \<Rightarrow> 'bc \<Rightarrow> error option" where
  "operands_error md mem prefix_offset scale bytecode =
     first_error
       (map (\<lambda>k. operand_error md mem (prefix_offset + GetOperandOffset md bytecode k scale)
                    (GetOperandType md bytecode k) scale)
          [0..NumberOfOperands md bytecode - 1])"

text \<open>
  The whole line: hex groups, blank groups, mnemonic, one blank, and the operands unless
  the opcode is a debug break.
\<close>

definition instruction_text ::
  "'bc env \<Rightarrow> memory \<Rightarrow> int \<Rightarrow> int \<Rightarrow> OperandScale \<Rightarrow> 'bc \<Rightarrow> string" where
  "instruction_text md mem parameter_count prefix_offset scale bytecode =
     hex_groups mem 0 (prefix_offset + Size md bytecode scale)
     @ blank_groups (prefix_offset + Size md bytecode scale)
     @ ToString md bytecode scale @ '' ''
     @ (if IsDebugBreak md bytecode then []
        else operands_text md mem parameter_count prefix_offset scale bytecode)"

definition decoded ::
  "'bc env \<Rightarrow> ostream \<Rightarrow> memory \<Rightarrow> int \<Rightarrow> int \<Rightarrow> OperandScale \<Rightarrow> 'bc \<Rightarrow> error + ostream" where
  "decoded md os mem parameter_count prefix_offset scale bytecode =
     (case (if IsDebugBreak md bytecode then None
            else operands_error md mem prefix_offset scale bytecode) of
        Some e \<Rightarrow> Inl e
      | None \<Rightarrow>
          Inr ((copyfmt os ios_init)
                 \<lparr>sink := sink os @ instruction_text md mem parameter_count prefix_offset scale
                                   bytecode\<rparr>))"

text \<open>
  What the decoders require of an operand of each type: the type passes the \<^verbatim>\<open>DCHECK\<close> of
  the decoder that the \<^verbatim>\<open>switch\<close> of \<^verbatim>\<open>Decode\<close> calls for it, its width at the scale is
  not \<^verbatim>\<open>kNone\<close>, and the type itself is not \<^verbatim>\<open>kNone\<close>.
\<close>

fun operand_contract :: "'bc env \<Rightarrow> OperandType \<Rightarrow> OperandScale \<Rightarrow> bool" where
  "operand_contract md OperandType.kNone s = False"
| "operand_contract md kImm s =
     (\<not> IsUnsignedOperandType md kImm \<and> SizeOfOperand md kImm s \<noteq> OperandSize.kNone)"
| "operand_contract md kRegCount s =
     (IsUnsignedOperandType md kRegCount \<and> SizeOfOperand md kRegCount s \<noteq> OperandSize.kNone)"
| "operand_contract md kFlag8 s =
     (IsUnsignedOperandType md kFlag8 \<and> SizeOfOperand md kFlag8 s \<noteq> OperandSize.kNone)"
| "operand_contract md kIdx s =
     (IsUnsignedOperandType md kIdx \<and> SizeOfOperand md kIdx s \<noteq> OperandSize.kNone)"
| "operand_contract md kRuntimeId s =
     (IsUnsignedOperandType md kRuntimeId \<and> SizeOfOperand md kRuntimeId s \<noteq> OperandSize.kNone)"
| "operand_contract md kIntrinsicId s =
     (IsUnsignedOperandType md kIntrinsicId
      \<and> SizeOfOperand md kIntrinsicId s \<noteq> OperandSize.kNone)"
| "operand_contract md t s =
     (IsRegisterOperandType md t \<and> \<not> IsUnsignedOperandType md t
      \<and> SizeOfOperand md t s \<noteq> OperandSize.kNone)"

subsection \<open>A sample opcode table\<close>

text \<open>
  A small opcode table in the style of V8's, for the concrete instances: two scale
  prefixes (\<^verbatim>\<open>00\<close> doubles, \<^verbatim>\<open>01\<close> quadruples the operand width), five ordinary
  instructions, a debug break that declares one operand, and \<^verbatim>\<open>MovePair\<close>, which
  declares two register pairs. Registers are encoded as the negated index.
\<close>

definition bytes :: "8 word list \<Rightarrow> memory" where
  "bytes xs = (\<lambda>i. if 0 \<le> i \<and> i < int (length xs) then xs ! nat i else 0)"

definition sample_operands :: "8 word \<Rightarrow> OperandType list" where
  "sample_operands b =
     (if b = 0x0C then [kImm]
      else if b = 0x1E then [kReg]
      else if b = 0x50 then [kRuntimeId, kMaybeReg, kRegCount, kRegOutPair]
      else if b = 0x60 then [kRegOutTriple]
      else if b = 0x61 then [kRegPair, kRegOutPair]
      else if b = 0x70 then [kReg]
      else if b = 0x71 then [kIdx, kFlag8]
      else [])"

definition sample_name :: "8 word \<Rightarrow> string" where
  "sample_name b =
     (if b = 0x0C then ''LdaSmi''
      else if b = 0x1E then ''Star''
      else if b = 0x50 then ''CallRuntimeForPair''
      else if b = 0x60 then ''ForInPrepare''
      else if b = 0x61 then ''MovePair''
      else if b = 0x70 then ''DebugBreak1''
      else if b = 0x71 then ''CreateClosure''
      else ''Illegal'')"

fun sample_size_of :: "OperandType \<Rightarrow> OperandScale \<Rightarrow> OperandSize" where
  "sample_size_of OperandType.kNone s = OperandSize.kNone"
| "sample_size_of kFlag8 s = kByte"
| "sample_size_of kIntrinsicId s = kByte"
| "sample_size_of kRuntimeId s = kShort"
| "sample_size_of t kSingle = kByte"
| "sample_size_of t kDouble = kShort"
| "sample_size_of t kQuadruple = kQuad"

fun size_bytes :: "OperandSize \<Rightarrow> int" where
  "size_bytes OperandSize.kNone = 0"
| "size_bytes kByte = 1"
| "size_bytes kShort = 2"
| "size_bytes kQuad = 4"

definition sample_offset :: "8 word \<Rightarrow> int \<Rightarrow> OperandScale \<Rightarrow> int" where
  "sample_offset b i s =
     1 + sum_list (map (\<lambda>t. size_bytes (sample_size_of t s)) (take (nat i) (sample_operands b)))"

definition sample_register_name :: "Register \<Rightarrow> int \<Rightarrow> string" where
  "sample_register_name r parameter_count =
     (if index r < 0 then ''a'' @ decimal (index r + parameter_count)
      else ''r'' @ decimal (index r))"

definition sample_env :: "(8 word) env" where
  "sample_env = \<lparr>
     FromByte = (\<lambda>b. b),
     IsPrefixScalingBytecode = (\<lambda>b. b = 0 \<or> b = 1),
     PrefixBytecodeToOperandScale = (\<lambda>b. if b = 0 then kDouble else kQuadruple),
     Size = (\<lambda>b s. sample_offset b (int (length (sample_operands b))) s),
     ToString = (\<lambda>b s. sample_name b @
        (if s = kDouble then ''.Wide'' else if s = kQuadruple then ''.ExtraWide'' else [])),
     IsDebugBreak = (\<lambda>b. b = 0x70),
     NumberOfOperands = (\<lambda>b. int (length (sample_operands b))),
     GetOperandType = (\<lambda>b i. if 0 \<le> i \<and> i < int (length (sample_operands b))
        then sample_operands b ! nat i else OperandType.kNone),
     GetOperandOffset = sample_offset,
     SizeOfOperand = sample_size_of,
     IsUnsignedOperandType = (\<lambda>t. t \<in> {kFlag8, kIntrinsicId, kIdx, kRegCount, kRuntimeId}),
     IsRegisterOperandType =
       (\<lambda>t. t \<in> {kMaybeReg, kReg, kRegPair, kRegOut, kRegOutPair, kRegOutTriple}),
     FromOperand = (\<lambda>w. Register (- sint w)),
     Register_ToString = sample_register_name,
     big_endian = False,
     debug_build = True \<rparr>"

text \<open>A stream as \<^verbatim>\<open>init\<close> leaves it, with nothing written yet.\<close>

definition cout :: ostream where
  "cout = \<lparr>flags = {ios_skipws, ios_dec}, fill = CHR '' '', width = 0, precision = 6,
           sink = []\<rparr>"

section \<open>Properties\<close>

subsection \<open>The stream operations\<close>

lemma put_string_width0: "width os = 0 \<Longrightarrow> put_string os s = os\<lparr>sink := sink os @ s\<rparr>"
  by (simp add: put_string_def padded_def)

lemma put_uint32_dec:
  "width os = 0 \<Longrightarrow> flags os = {ios_skipws, ios_dec} \<Longrightarrow>
   put_uint32 os v = os\<lparr>sink := sink os @ decimal (uint v)\<rparr>"
  by (simp add: put_uint32_def padded_def is_oct_def is_hex_def decimal_def Let_def)

lemma put_int32_dec:
  "width os = 0 \<Longrightarrow> flags os = {ios_skipws, ios_dec} \<Longrightarrow>
   put_int32 os v = os\<lparr>sink := sink os @ decimal (sint v)\<rparr>"
  by (simp add: put_int32_def padded_def is_oct_def is_hex_def decimal_def Let_def)

lemma to_digits_small: "n < base \<Longrightarrow> to_digits base upper n = [digit_char upper n]"
  by (simp add: to_digits.simps)

lemma to_digits_hex_byte:
  assumes "n < 256"
  shows "replicate (nat (2 - int (length (to_digits 16 False n)))) (CHR ''0'')
           @ to_digits 16 False n
     = [digit_char False (n div 16), digit_char False (n mod 16)]"
proof (cases "n < 16")
  case True
  then show ?thesis by (simp add: to_digits_small digit_char_def)
next
  case False
  with assms have "n div 16 < 16" by simp
  then have "to_digits 16 False n = [digit_char False (n div 16), digit_char False (n mod 16)]"
    using False by (subst to_digits.simps) (simp add: to_digits_small)
  then show ?thesis by simp
qed

lemma unat_ucast_byte: "unat (ucast (b :: 8 word) :: 32 word) = unat b"
proof -
  have "uint (ucast b :: 32 word) = uint b"
    by (rule uint_up_ucast) (simp add: is_up)
  then have "nat (uint (ucast b :: 32 word)) = nat (uint b)" by simp
  then show ?thesis by simp
qed

lemma unat_byte_less: "unat (b :: 8 word) < 256"
proof -
  have "unat b < 2 ^ LENGTH(8)" by (rule unsigned_less)
  then show ?thesis by simp
qed

lemma put_hex_byte:
  assumes "flags os = {ios_hex}" and "fill os = CHR ''0''"
  shows "put_char (put_uint32 (setw os 2) (ucast (b :: 8 word))) CHR '' ''
           = os\<lparr>sink := sink os @ hex_group b, width := 0\<rparr>"
proof -
  have "put_uint32 (setw os 2) (ucast b)
          = os\<lparr>sink := sink os @ [digit_char False (unat b div 16), digit_char False (unat b mod 16)],
                 width := 0\<rparr>"
    using assms to_digits_hex_byte [OF unat_byte_less [of b]]
    by (simp add: put_uint32_def setw_def padded_def is_oct_def is_hex_def Let_def
          unat_ucast_byte)
  then show ?thesis
    by (simp add: put_char_def put_string_def padded_def hex_group_def)
qed

lemma hex_loop_eq:
  "flags os = {ios_hex} \<Longrightarrow> fill os = CHR ''0'' \<Longrightarrow>
   hex_loop os mem i n =
     os\<lparr>sink := sink os @ hex_groups mem i n, width := (if i < n then 0 else width os)\<rparr>"
proof (induction os mem i n rule: hex_loop.induct)
  case (1 os mem i n)
  show ?case
  proof (cases "i < n")
    case True
    let ?os1 = "os\<lparr>sink := sink os @ hex_group (mem i), width := 0\<rparr>"
    have step: "hex_loop os mem i n = hex_loop ?os1 mem (i + 1) n"
      using True "1.prems" by (subst hex_loop.simps) (simp add: put_hex_byte)
    have ih: "hex_loop ?os1 mem (i + 1) n =
        ?os1\<lparr>sink := sink ?os1 @ hex_groups mem (i + 1) n,
             width := (if i + 1 < n then 0 else width ?os1)\<rparr>"
      using "1.IH" [OF True] "1.prems" by (simp add: put_hex_byte)
    have "hex_groups mem i n = hex_group (mem i) @ hex_groups mem (i + 1) n"
      using True by (simp add: hex_groups_def upto_rec1 [of i])
    with step ih True show ?thesis by simp
  next
    case False
    then show ?thesis by (subst hex_loop.simps) (simp add: hex_groups_def)
  qed
qed

lemma column_loop_eq:
  "width os = 0 \<Longrightarrow> column_loop os i = os\<lparr>sink := sink os @ blank_groups i\<rparr>"
proof (induction os i rule: column_loop.induct)
  case (1 os i)
  show ?case
  proof (cases "i < kBytecodeColumnSize")
    case True
    let ?os1 = "os\<lparr>sink := sink os @ ''   ''\<rparr>"
    have step: "column_loop os i = column_loop ?os1 (i + 1)"
      using True "1.prems" by (subst column_loop.simps) (simp add: put_string_width0)
    have ih: "column_loop ?os1 (i + 1) = ?os1\<lparr>sink := sink ?os1 @ blank_groups (i + 1)\<rparr>"
      using "1.IH" [OF True] "1.prems" by (simp add: put_string_width0)
    have "nat (kBytecodeColumnSize - i) = Suc (nat (kBytecodeColumnSize - (i + 1)))"
      using True by simp
    then have "blank_groups i = ''   '' @ blank_groups (i + 1)"
      unfolding blank_groups_def by (simp only: replicate_Suc concat.simps)
    with step ih show ?thesis by simp
  next
    case False
    then show ?thesis by (subst column_loop.simps) (simp add: blank_groups_def)
  qed
qed

subsection \<open>The operand loop\<close>

lemma print_operand_eq:
  assumes "width os = 0" and "flags os = {ios_skipws, ios_dec}"
  shows "print_operand md os mem pc p t s rng =
     (case operand_error md mem p t s of
        Some e \<Rightarrow> Inl e
      | None \<Rightarrow> Inr (os\<lparr>sink := sink os @ operand_text md mem pc p t s (rng + range_length t)\<rparr>,
                     rng + range_length t))"
  using assms
  by (cases t)
     (simp_all add: result_error_def print_register_range_def register_range_text_def
        put_string_width0 put_uint32_dec put_int32_dec Let_def ac_simps split: sum.splits)

lemma join_sep_Cons: "join_sep sep (x # xs) = x @ (if xs = [] then [] else sep @ join_sep sep xs)"
  by (cases xs) simp_all

lemma range_sum_step:
  "i \<le> k \<Longrightarrow>
   range_sum md bc i k = range_length (GetOperandType md bc i) + range_sum md bc (i + 1) k"
  by (simp add: range_sum_def upto_rec1 [of i])

text \<open>
  The distance of a register range is the one of its own type when no pair or triple
  operand comes before it in the instruction.
\<close>

lemma sum_list_all_zero: "(\<forall>x \<in> set xs. f x = (0::int)) \<Longrightarrow> sum_list (map f xs) = 0"
  by (induction xs) simp_all

lemma range_sum_first:
  assumes "0 \<le> k"
    and "\<forall>j. 0 \<le> j \<and> j < k \<longrightarrow> range_length (GetOperandType md bc j) = 0"
  shows "range_sum md bc 0 k = range_length (GetOperandType md bc k)"
proof -
  have "[0..k] = [0..k - 1] @ [k]"
    using assms(1) by (rule upto_rec2)
  moreover have "sum_list (map (\<lambda>j. range_length (GetOperandType md bc j)) [0..k - 1]) = 0"
    using assms(2) by (intro sum_list_all_zero) simp
  ultimately show ?thesis by (simp add: range_sum_def)
qed

lemma operand_loop_eq:
  "width os = 0 \<Longrightarrow> flags os = {ios_skipws, ios_dec} \<Longrightarrow>
   operand_loop md mem pc bc s prefix_offset n os rng i =
     (case first_error (map (\<lambda>k. operand_error md mem (prefix_offset + GetOperandOffset md bc k s)
                                 (GetOperandType md bc k) s) [i..n - 1]) of
        Some e \<Rightarrow> Inl e
      | None \<Rightarrow> Inr (os\<lparr>sink := sink os @ join_sep '', ''
                         (map (\<lambda>k. operand_text md mem pc (prefix_offset + GetOperandOffset md bc k s)
                                 (GetOperandType md bc k) s (rng + range_sum md bc i k)) [i..n - 1])\<rparr>))"
proof (induction md mem pc bc s prefix_offset n os rng i rule: operand_loop.induct)
  case (1 md mem pc bc s prefix_offset n os rng i)
  let ?t = "\<lambda>k. GetOperandType md bc k"
  let ?p = "\<lambda>k. prefix_offset + GetOperandOffset md bc k s"
  let ?err = "\<lambda>k. operand_error md mem (?p k) (?t k) s"
  let ?txt = "\<lambda>r j k. operand_text md mem pc (?p k) (?t k) s (r + range_sum md bc j k)"
  show ?case
  proof (cases "i < n")
    case False
    then show ?thesis by (subst operand_loop.simps) simp
  next
    case True
    then have upto: "[i..n - 1] = i # [i + 1..n - 1]"
      by (simp add: upto_rec1 [of i])
    show ?thesis
    proof (cases "?err i")
      case (Some e)
      then show ?thesis
        using True "1.prems"
        by (subst operand_loop.simps) (simp add: upto print_operand_eq)
    next
      case None
      let ?rng1 = "rng + range_length (?t i)"
      let ?os1 = "os\<lparr>sink := sink os @ operand_text md mem pc (?p i) (?t i) s ?rng1\<rparr>"
      let ?os2 = "if i \<noteq> n - 1 then put_string ?os1 '', '' else ?os1"
      have po: "print_operand md os mem pc (?p i) (?t i) s rng = Inr (?os1, ?rng1)"
        using None "1.prems" by (simp add: print_operand_eq)
      have os2: "?os2 = os\<lparr>sink := sink os @ operand_text md mem pc (?p i) (?t i) s ?rng1
                               @ (if i \<noteq> n - 1 then '', '' else [])\<rparr>"
        using "1.prems" by (simp add: put_string_width0)
      have plain2: "width ?os2 = 0" "flags ?os2 = {ios_skipws, ios_dec}"
        using "1.prems" by (simp_all add: put_string_width0)
      have step: "operand_loop md mem pc bc s prefix_offset n os rng i =
                  operand_loop md mem pc bc s prefix_offset n ?os2 ?rng1 (i + 1)"
        using True po by (subst operand_loop.simps) (simp add: Let_def)
      note ih = "1.IH" [OF True refl refl refl po refl plain2]
      have texts: "map (?txt ?rng1 (i + 1)) [i + 1..n - 1] = map (?txt rng i) [i + 1..n - 1]"
        by (rule map_cong [OF refl]) (simp add: range_sum_step [of i] ac_simps)
      have txt_i: "?txt rng i i = operand_text md mem pc (?p i) (?t i) s ?rng1"
        by (simp add: range_sum_def)
      have empty: "[i + 1..n - 1] = [] \<longleftrightarrow> i = n - 1"
        using True by auto
      show ?thesis
        unfolding step ih texts upto
        using None
        by (simp only: list.map first_error.simps join_sep_Cons txt_i os2 map_is_Nil_conv empty)
           (simp split: option.splits)
    qed
  qed
qed

subsection \<open>\<^verbatim>\<open>Decode\<close> as a function of the table and the buffer\<close>

lemma Decode_body:
  "(let saved_format = copyfmt ios_init ios_init;
        os1 = hex_loop (os\<lparr>fill := CHR ''0'', flags := {ios_hex}\<rparr>) mem 0
                (prefix_offset + Size md bc sc);
        os2 = copyfmt os1 saved_format;
        os3 = column_loop os2 (prefix_offset + Size md bc sc);
        os4 = put_string (put_string os3 (ToString md bc sc)) '' ''
    in if IsDebugBreak md bc then Inr os4
       else operand_loop md mem pc bc sc prefix_offset (NumberOfOperands md bc) os4 0 0)
   = decoded md os mem pc prefix_offset sc bc"
proof -
  let ?n = "prefix_offset + Size md bc sc"
  let ?os4 = "(copyfmt os ios_init)
      \<lparr>sink := sink os @ hex_groups mem 0 ?n @ blank_groups ?n @ ToString md bc sc @ '' ''\<rparr>"
  have saved: "copyfmt ios_init ios_init = ios_init"
    by (simp add: copyfmt_def)
  have os2: "copyfmt (hex_loop (os\<lparr>fill := CHR ''0'', flags := {ios_hex}\<rparr>) mem 0 ?n) ios_init
             = (copyfmt os ios_init)\<lparr>sink := sink os @ hex_groups mem 0 ?n\<rparr>"
    by (simp add: hex_loop_eq copyfmt_def)
  have w: "width ((copyfmt os ios_init)\<lparr>sink := s\<rparr>) = 0" for s
    by (simp add: copyfmt_def ios_init_def)
  have f: "flags ((copyfmt os ios_init)\<lparr>sink := s\<rparr>) = {ios_skipws, ios_dec}" for s
    by (simp add: copyfmt_def ios_init_def)
  have os4: "put_string (put_string (column_loop
                ((copyfmt os ios_init)\<lparr>sink := sink os @ hex_groups mem 0 ?n\<rparr>) ?n)
                (ToString md bc sc)) '' '' = ?os4"
    by (simp add: column_loop_eq put_string_width0 w)
  show ?thesis
    unfolding Let_def saved os2 os4
    by (simp add: decoded_def instruction_text_def operand_loop_eq w f operands_error_def
          operands_text_def split: option.splits)
qed

lemma Decode_eq:
  "Decode md os mem pc =
     decoded md os mem pc (prefix_offset_of md mem) (operand_scale_of md mem) (bytecode_of md mem)"
proof (cases "IsPrefixScalingBytecode md (FromByte md (mem 0))")
  case True
  then show ?thesis
    using Decode_body [of os mem 1 md "FromByte md (mem 1)"
          "PrefixBytecodeToOperandScale md (FromByte md (mem 0))" pc]
    by (simp add: Decode_def prefix_offset_of_def operand_scale_of_def bytecode_of_def Let_def
          cong: if_cong split del: if_split)
next
  case False
  then show ?thesis
    using Decode_body [of os mem 0 md "FromByte md (mem 0)" kSingle pc]
    by (simp add: Decode_def prefix_offset_of_def operand_scale_of_def bytecode_of_def Let_def
          cong: if_cong split del: if_split)
qed

subsection \<open>Widening the operand\<close>

lemma sint_scast_byte: "sint (scast (b :: 8 word) :: 32 word) = sint b"
  by (rule sint_up_scast) (simp add: is_up)

lemma sint_scast_short: "sint (scast (h :: 16 word) :: 32 word) = sint h"
  by (rule sint_up_scast) (simp add: is_up)

lemma uint_ucast_byte: "uint (ucast (b :: 8 word) :: 32 word) = uint b"
  by (rule uint_up_ucast) (simp add: is_up)

lemma uint_ucast_short: "uint (ucast (h :: 16 word) :: 32 word) = uint h"
  by (rule uint_up_ucast) (simp add: is_up)

subsection \<open>When the decoders return\<close>

lemma DecodeSignedOperand_succeeds:
  "\<not> IsUnsignedOperandType md t \<Longrightarrow> SizeOfOperand md t s \<noteq> OperandSize.kNone \<Longrightarrow>
   \<exists>v. DecodeSignedOperand md mem p t s = Inr v"
  by (cases "SizeOfOperand md t s") (simp_all add: DecodeSignedOperand_def)

lemma DecodeUnsignedOperand_succeeds:
  "IsUnsignedOperandType md t \<Longrightarrow> SizeOfOperand md t s \<noteq> OperandSize.kNone \<Longrightarrow>
   \<exists>v. DecodeUnsignedOperand md mem p t s = Inr v"
  by (cases "SizeOfOperand md t s") (simp_all add: DecodeUnsignedOperand_def)

lemma DecodeRegisterOperand_succeeds:
  assumes "IsRegisterOperandType md t" and "\<not> IsUnsignedOperandType md t"
    and "SizeOfOperand md t s \<noteq> OperandSize.kNone"
  shows "\<exists>r. DecodeRegisterOperand md mem p t s = Inr r"
proof -
  from DecodeSignedOperand_succeeds [OF assms(2,3)]
  obtain v where "DecodeSignedOperand md mem p t s = Inr v" by blast
  with assms(1) show ?thesis by (simp add: DecodeRegisterOperand_def)
qed

lemma operand_contract_no_error:
  "operand_contract md t s \<Longrightarrow> operand_error md mem p t s = None"
  using DecodeSignedOperand_succeeds [of md t s mem p]
    DecodeUnsignedOperand_succeeds [of md t s mem p]
    DecodeRegisterOperand_succeeds [of md t s mem p]
  by (cases t) (auto simp: result_error_def)

lemma first_error_None: "(\<forall>x \<in> set xs. x = None) \<Longrightarrow> first_error xs = None"
  by (induction xs rule: first_error.induct) simp_all

lemma first_error_None_iff: "first_error xs = None \<longleftrightarrow> (\<forall>x \<in> set xs. x = None)"
  by (induction xs rule: first_error.induct) simp_all

lemma operands_error_None:
  assumes "\<forall>k. 0 \<le> k \<and> k < NumberOfOperands md bc \<longrightarrow>
             operand_contract md (GetOperandType md bc k) sc"
  shows "operands_error md mem prefix_offset sc bc = None"
  unfolding operands_error_def
  by (rule first_error_None) (use assms in \<open>auto simp: operand_contract_no_error\<close>)

lemma sample_operand_contract:
  "t \<noteq> OperandType.kNone \<Longrightarrow> operand_contract sample_env t s"
  by (cases t; cases s) (simp_all add: sample_env_def)

lemma sample_operands_not_kNone: "t \<in> set (sample_operands b) \<Longrightarrow> t \<noteq> OperandType.kNone"
  by (auto simp: sample_operands_def split: if_splits)

lemma sample_env_contract:
  "0 \<le> k \<and> k < NumberOfOperands sample_env b \<Longrightarrow>
   operand_contract sample_env (GetOperandType sample_env b k) s"
proof -
  assume a: "0 \<le> k \<and> k < NumberOfOperands sample_env b"
  then have "nat k < length (sample_operands b)" by (simp add: sample_env_def nat_less_iff)
  then have "sample_operands b ! nat k \<in> set (sample_operands b)" by (rule nth_mem)
  then have "sample_operands b ! nat k \<noteq> OperandType.kNone" by (rule sample_operands_not_kNone)
  moreover have "GetOperandType sample_env b k = sample_operands b ! nat k"
    using a by (simp add: sample_env_def)
  ultimately show ?thesis by (simp add: sample_operand_contract)
qed

subsection \<open>What a returning \<^verbatim>\<open>Decode\<close> wrote\<close>

lemma Decode_Inr_sink:
  assumes "Decode md os mem pc = Inr os'"
  shows "sink os' = sink os @ instruction_text md mem pc (prefix_offset_of md mem)
                               (operand_scale_of md mem) (bytecode_of md mem)"
  using assms by (auto simp: Decode_eq decoded_def split: option.splits if_splits)

lemma Decode_Inr_no_error:
  assumes "Decode md os mem pc = Inr os'" and "\<not> IsDebugBreak md (bytecode_of md mem)"
  shows "operands_error md mem (prefix_offset_of md mem) (operand_scale_of md mem)
           (bytecode_of md mem) = None"
  using assms by (auto simp: Decode_eq decoded_def split: option.splits if_splits)

lemma Decode_format_after:
  "Decode md os mem pc = Inr os' \<Longrightarrow>
   flags os' = {ios_skipws, ios_dec} \<and> fill os' = CHR '' '' \<and> width os' = 0 \<and> precision os' = 6"
  by (auto simp: Decode_eq decoded_def copyfmt_def ios_init_def split: option.splits if_splits)

lemma length_hex_group: "length (hex_group b) = 3"
  by (simp add: hex_group_def)

lemma length_concat_const:
  "(\<forall>x \<in> set xs. length x = c) \<Longrightarrow> length (concat xs) = c * length xs"
  by (induction xs) simp_all

lemma length_hex_groups: "length (hex_groups mem i n) = 3 * nat (n - i)"
  unfolding hex_groups_def
  by (subst length_concat_const [where c = 3]) (auto simp: length_hex_group)

lemma length_blank_groups: "length (blank_groups i) = 3 * nat (kBytecodeColumnSize - i)"
  unfolding blank_groups_def
  by (subst length_concat_const [where c = 3]) auto

subsection \<open>Evaluating the sample table\<close>

lemma replicate_numeral_eval: "replicate (numeral k) x = x # replicate (pred_numeral k) x"
  by (simp add: numeral_eq_Suc)

lemmas sample_simps =
  sample_env_def sample_offset_def sample_operands_def sample_name_def
  sample_register_name_def bytes_def cout_def

lemmas text_simps =
  decoded_def instruction_text_def operands_text_def operands_error_def
  hex_groups_def hex_group_def blank_groups_def kBytecodeColumnSize_def prefix_offset_of_def
  operand_scale_of_def bytecode_of_def range_sum_def register_range_text_def result_error_def
  DecodeUnsignedOperand_def DecodeSignedOperand_def DecodeRegisterOperand_def
  ReadUnalignedUInt16_def ReadUnalignedUInt32_def decimal_def to_digits.simps digit_char_def
  upto.simps copyfmt_def ios_init_def replicate_numeral_eval

lemma sample_prefixed:
  "IsPrefixScalingBytecode sample_env (FromByte sample_env (bytes (0x00 # bs) 0))"
  by (simp add: sample_env_def bytes_def)

lemma sample_LdaSmi:
  "\<not> IsPrefixScalingBytecode sample_env (FromByte sample_env (bytes (0x0C # bs) 0))"
  by (simp add: sample_env_def bytes_def)

section \<open>The claims\<close>

text \<open>
  C1. The claim: the formatting state of the caller's stream (fill character, base
  flags) is the same after \<^verbatim>\<open>Decode\<close> as before. The code saves nothing:
  \<^verbatim>\<open>saved_format.copyfmt(saved_format)\<close> copies the fresh \<^verbatim>\<open>std::ios\<close> onto itself, so
  \<^verbatim>\<open>os.copyfmt(saved_format)\<close> gives the stream the state of \<^verbatim>\<open>init\<close> (lemma
  \<open>Decode_format_after\<close>). A caller who had set \<^verbatim>\<open>std::hex\<close> and the fill character
  \<^verbatim>\<open>*\<close> gets the stream back in base 10 with a blank fill.
\<close>

theorem Decode_loses_caller_format:
  "Decode sample_env (cout\<lparr>flags := {ios_skipws, ios_hex}, fill := CHR ''*''\<rparr>)
     (bytes [0x0C, 0x05]) 0
   = Inr \<lparr>flags = {ios_skipws, ios_dec}, fill = CHR '' '', width = 0, precision = 6,
          sink = ''0c 05             LdaSmi [5]''\<rparr>"
  by code_simp

text \<open>
  C2. The claim: every register-pair operand is written \<^verbatim>\<open>first-last\<close> with the last
  index 1 above the first, every register-triple operand with the last index 2 above,
  also when an instruction declares more than one of them. The variable \<^verbatim>\<open>range\<close> is
  declared before the operand loop and never reset, so the second pair of \<^verbatim>\<open>MovePair\<close>
  is written with the last index 2 above the first: \<^verbatim>\<open>r3-r5\<close>.
\<close>

theorem second_register_pair_range:
  "Decode sample_env cout (bytes [0x61, 0xFF, 0xFD]) 0
   = Inr (cout\<lparr>sink := ''61 ff fd          MovePair r1-r2, r3-r5''\<rparr>)"
  by code_simp

text \<open>
  C3. When the first byte is a scale prefix, the scale is the one the prefix denotes,
  the opcode is resolved from the second byte, and the line starts with the hex groups
  of exactly the \<open>1 + Size\<close> bytes at the offsets \<open>0, \<dots>, Size\<close>; otherwise the scale is
  \<open>kSingle\<close>, the opcode is the first byte's, and the line starts with the groups of
  exactly the \<open>Size\<close> bytes at the offsets \<open>0, \<dots>, Size - 1\<close>. The blank groups, the
  mnemonic of that opcode at that scale and the operands read at that prefix length and
  scale follow.
\<close>

theorem scale_prefix_accounting:
  assumes "Decode md os mem parameter_count = Inr os'"
  shows "(IsPrefixScalingBytecode md (FromByte md (mem 0)) \<longrightarrow>
           (let scale = PrefixBytecodeToOperandScale md (FromByte md (mem 0));
                bytecode = FromByte md (mem 1);
                n = 1 + Size md bytecode scale
            in sink os' = sink os @ concat (map (\<lambda>k. hex_group (mem k)) [0..n - 1])
                 @ blank_groups n @ ToString md bytecode scale @ '' ''
                 @ (if IsDebugBreak md bytecode then []
                    else operands_text md mem parameter_count 1 scale bytecode)
               \<and> length (map (\<lambda>k. hex_group (mem k)) [0..n - 1]) = nat n))
       \<and> (\<not> IsPrefixScalingBytecode md (FromByte md (mem 0)) \<longrightarrow>
           (let bytecode = FromByte md (mem 0);
                n = Size md bytecode kSingle
            in sink os' = sink os @ concat (map (\<lambda>k. hex_group (mem k)) [0..n - 1])
                 @ blank_groups n @ ToString md bytecode kSingle @ '' ''
                 @ (if IsDebugBreak md bytecode then []
                    else operands_text md mem parameter_count 0 kSingle bytecode)
               \<and> length (map (\<lambda>k. hex_group (mem k)) [0..n - 1]) = nat n))"
  using Decode_Inr_sink [OF assms]
  by (simp add: instruction_text_def hex_groups_def prefix_offset_of_def operand_scale_of_def
        bytecode_of_def Let_def)

theorem scale_prefix_accounting_witness:
  "Decode sample_env cout (bytes [0x00, 0x0C, 0x05, 0x80]) 0
     = Inr (cout\<lparr>sink := ''00 0c 05 80       LdaSmi.Wide [-32763]''\<rparr>)
   \<and> IsPrefixScalingBytecode sample_env (FromByte sample_env (bytes [0x00, 0x0C, 0x05, 0x80] 0))
   \<and> Size sample_env 0x0C kDouble = 3
   \<and> length (map (\<lambda>k. hex_group (bytes [0x00, 0x0C, 0x05, 0x80] k)) [0..1 + 3 - 1]) = 4
   \<and> Decode sample_env cout (bytes [0x0C, 0x05]) 0
     = Inr (cout\<lparr>sink := ''0c 05             LdaSmi [5]''\<rparr>)
   \<and> \<not> IsPrefixScalingBytecode sample_env (FromByte sample_env (bytes [0x0C, 0x05] 0))
   \<and> Size sample_env 0x0C kSingle = 2
   \<and> length (map (\<lambda>k. hex_group (bytes [0x0C, 0x05] k)) [0..2 - 1]) = 2"
proof -
  let ?m1 = "bytes [0x00, 0x0C, 0x05, 0x80]" and ?m2 = "bytes [0x0C, 0x05]"
  have d1: "Decode sample_env cout ?m1 0
              = Inr (cout\<lparr>sink := ''00 0c 05 80       LdaSmi.Wide [-32763]''\<rparr>)"
    unfolding Decode_eq by (simp add: sample_simps text_simps)
  have d2: "Decode sample_env cout ?m2 0 = Inr (cout\<lparr>sink := ''0c 05             LdaSmi [5]''\<rparr>)"
    unfolding Decode_eq by (simp add: sample_simps text_simps)
  have e1: "PrefixBytecodeToOperandScale sample_env (FromByte sample_env (?m1 0)) = kDouble"
    "FromByte sample_env (?m1 1) = 0x0C" "Size sample_env 0x0C kDouble = 3"
    by (simp_all add: sample_env_def bytes_def sample_offset_def sample_operands_def)
  have e2: "FromByte sample_env (?m2 0) = 0x0C" "Size sample_env 0x0C kSingle = 2"
    by (simp_all add: sample_env_def bytes_def sample_offset_def sample_operands_def)
  have c1: "length (map (\<lambda>k. hex_group (?m1 k)) [0..1 + 3 - 1]) = 4"
    using scale_prefix_accounting [OF d1] sample_prefixed [of "[0x0C, 0x05, 0x80]"]
    by (simp add: e1 Let_def del: length_map)
  have c2: "length (map (\<lambda>k. hex_group (?m2 k)) [0..2 - 1]) = 2"
    using scale_prefix_accounting [OF d2] sample_LdaSmi [of "[0x05]"]
    by (simp add: e2 Let_def del: length_map)
  show ?thesis
    using d1 d2 e1(3) e2(2) c1 c2 sample_prefixed [of "[0x0C, 0x05, 0x80]"]
      sample_LdaSmi [of "[0x05]"]
    by simp
qed

text \<open>
  C4. For an opcode that is a debug break, \<^verbatim>\<open>Decode\<close> returns after the hex groups, the
  blank groups, the mnemonic and one blank: no operand text, however many operands the
  opcode declares, and no decoder is called, so the call cannot abort.
\<close>

theorem debug_break_short_circuit:
  assumes "IsDebugBreak md (bytecode_of md mem)"
  shows "\<exists>os'. Decode md os mem parameter_count = Inr os'
     \<and> sink os' = sink os
         @ hex_groups mem 0 (prefix_offset_of md mem
                             + Size md (bytecode_of md mem) (operand_scale_of md mem))
         @ blank_groups (prefix_offset_of md mem
                             + Size md (bytecode_of md mem) (operand_scale_of md mem))
         @ ToString md (bytecode_of md mem) (operand_scale_of md mem) @ '' ''"
  using assms by (simp add: Decode_eq decoded_def instruction_text_def)

theorem debug_break_short_circuit_witness:
  "IsDebugBreak sample_env (bytecode_of sample_env (bytes [0x70, 0xFE]))
   \<and> NumberOfOperands sample_env (bytecode_of sample_env (bytes [0x70, 0xFE])) = 1
   \<and> (\<exists>os'. Decode sample_env cout (bytes [0x70, 0xFE]) 0 = Inr os'
            \<and> sink os' = ''70 fe             DebugBreak1 '')"
proof -
  have b: "bytecode_of sample_env (bytes [0x70, 0xFE]) = 0x70"
    "operand_scale_of sample_env (bytes [0x70, 0xFE]) = kSingle"
    "prefix_offset_of sample_env (bytes [0x70, 0xFE]) = 0"
    by (simp_all add: bytecode_of_def operand_scale_of_def prefix_offset_of_def sample_env_def
          bytes_def)
  have h: "IsDebugBreak sample_env (bytecode_of sample_env (bytes [0x70, 0xFE]))"
    unfolding b by (simp add: sample_env_def)
  have n: "NumberOfOperands sample_env 0x70 = 1" "Size sample_env 0x70 kSingle = 2"
    "ToString sample_env 0x70 kSingle = ''DebugBreak1''"
    by (simp_all add: sample_env_def sample_operands_def sample_offset_def sample_name_def)
  have t: "hex_groups (bytes [0x70, 0xFE]) 0 2 = ''70 fe ''" "blank_groups 2 = ''            ''"
    by code_simp+
  show ?thesis
    using debug_break_short_circuit [OF h, of cout 0] h
    by (simp add: b n t cout_def)
qed

text \<open>
  C5. At a resolved width of one byte the signed decoder sign-extends and the unsigned
  decoder zero-extends: the byte \<^verbatim>\<open>0x7F\<close> decodes to 127 on both paths, the byte
  \<^verbatim>\<open>0x80\<close> to -128 on the signed and to 128 on the unsigned path. At a width of two
  bytes the 16-bit value read is likewise sign-extended or zero-extended to 32 bits.
  Each decoder is called on a type that passes its \<^verbatim>\<open>DCHECK\<close>.
\<close>

theorem operand_extension:
  "(\<not> IsUnsignedOperandType md t \<and> SizeOfOperand md t s = kByte \<longrightarrow>
      (\<exists>v. DecodeSignedOperand md mem p t s = Inr v \<and> sint v = sint (mem p)
           \<and> (mem p = 0x7F \<longrightarrow> sint v = 127) \<and> (mem p = 0x80 \<longrightarrow> sint v = - 128)))
   \<and> (IsUnsignedOperandType md t \<and> SizeOfOperand md t s = kByte \<longrightarrow>
      (\<exists>v. DecodeUnsignedOperand md mem p t s = Inr v \<and> uint v = uint (mem p)
           \<and> (mem p = 0x7F \<longrightarrow> uint v = 127) \<and> (mem p = 0x80 \<longrightarrow> uint v = 128)))
   \<and> (\<not> IsUnsignedOperandType md t \<and> SizeOfOperand md t s = kShort \<longrightarrow>
      (\<exists>v. DecodeSignedOperand md mem p t s = Inr v
           \<and> sint v = sint (ReadUnalignedUInt16 (big_endian md) mem p)))
   \<and> (IsUnsignedOperandType md t \<and> SizeOfOperand md t s = kShort \<longrightarrow>
      (\<exists>v. DecodeUnsignedOperand md mem p t s = Inr v
           \<and> uint v = uint (ReadUnalignedUInt16 (big_endian md) mem p)))"
proof (intro conjI impI)
  assume a: "\<not> IsUnsignedOperandType md t \<and> SizeOfOperand md t s = kByte"
  then have d: "DecodeSignedOperand md mem p t s = Inr (scast (mem p))"
    by (simp add: DecodeSignedOperand_def)
  have "mem p = 0x7F \<Longrightarrow> sint (mem p) = 127" and "mem p = 0x80 \<Longrightarrow> sint (mem p) = - 128"
    by simp_all
  with d show "\<exists>v. DecodeSignedOperand md mem p t s = Inr v \<and> sint v = sint (mem p)
           \<and> (mem p = 0x7F \<longrightarrow> sint v = 127) \<and> (mem p = 0x80 \<longrightarrow> sint v = - 128)"
    by (simp add: sint_scast_byte)
next
  assume a: "IsUnsignedOperandType md t \<and> SizeOfOperand md t s = kByte"
  then have d: "DecodeUnsignedOperand md mem p t s = Inr (ucast (mem p))"
    by (simp add: DecodeUnsignedOperand_def)
  have "mem p = 0x7F \<Longrightarrow> uint (mem p) = 127" and "mem p = 0x80 \<Longrightarrow> uint (mem p) = 128"
    by simp_all
  with d show "\<exists>v. DecodeUnsignedOperand md mem p t s = Inr v \<and> uint v = uint (mem p)
           \<and> (mem p = 0x7F \<longrightarrow> uint v = 127) \<and> (mem p = 0x80 \<longrightarrow> uint v = 128)"
    by (simp add: uint_ucast_byte)
next
  assume a: "\<not> IsUnsignedOperandType md t \<and> SizeOfOperand md t s = kShort"
  then show "\<exists>v. DecodeSignedOperand md mem p t s = Inr v
           \<and> sint v = sint (ReadUnalignedUInt16 (big_endian md) mem p)"
    by (simp add: DecodeSignedOperand_def sint_scast_short)
next
  assume a: "IsUnsignedOperandType md t \<and> SizeOfOperand md t s = kShort"
  then show "\<exists>v. DecodeUnsignedOperand md mem p t s = Inr v
           \<and> uint v = uint (ReadUnalignedUInt16 (big_endian md) mem p)"
    by (simp add: DecodeUnsignedOperand_def uint_ucast_short)
qed

theorem operand_extension_witness:
  "(\<exists>v. DecodeSignedOperand sample_env (bytes [0x7F]) 0 kImm kSingle = Inr v \<and> sint v = 127)
   \<and> (\<exists>v. DecodeSignedOperand sample_env (bytes [0x80]) 0 kImm kSingle = Inr v \<and> sint v = - 128)
   \<and> (\<exists>v. DecodeUnsignedOperand sample_env (bytes [0x7F]) 0 kIdx kSingle = Inr v \<and> uint v = 127)
   \<and> (\<exists>v. DecodeUnsignedOperand sample_env (bytes [0x80]) 0 kIdx kSingle = Inr v \<and> uint v = 128)
   \<and> (\<exists>v. DecodeSignedOperand sample_env (bytes [0x34, 0x92]) 0 kImm kDouble = Inr v
          \<and> sint v = - 28108)
   \<and> (\<exists>v. DecodeUnsignedOperand sample_env (bytes [0x34, 0x92]) 0 kIdx kDouble = Inr v
          \<and> uint v = 37428)"
proof -
  have s: "\<not> IsUnsignedOperandType sample_env kImm" "IsUnsignedOperandType sample_env kIdx"
    "SizeOfOperand sample_env kImm kSingle = kByte" "SizeOfOperand sample_env kIdx kSingle = kByte"
    "SizeOfOperand sample_env kImm kDouble = kShort" "SizeOfOperand sample_env kIdx kDouble = kShort"
    by (simp_all add: sample_env_def)
  have m: "bytes [0x7F] 0 = 0x7F" "bytes [0x80] 0 = 0x80"
    "ReadUnalignedUInt16 (big_endian sample_env) (bytes [0x34, 0x92]) 0 = 0x9234"
    by (simp_all add: bytes_def ReadUnalignedUInt16_def sample_env_def)
  show ?thesis
    using operand_extension [of sample_env kImm kSingle "bytes [0x7F]" 0]
      operand_extension [of sample_env kImm kSingle "bytes [0x80]" 0]
      operand_extension [of sample_env kIdx kSingle "bytes [0x7F]" 0]
      operand_extension [of sample_env kIdx kSingle "bytes [0x80]" 0]
      operand_extension [of sample_env kImm kDouble "bytes [0x34, 0x92]" 0]
      operand_extension [of sample_env kIdx kDouble "bytes [0x34, 0x92]" 0]
    by (simp add: s m)
qed

text \<open>
  C6. Each decoder returns a value, that is, passes its \<^verbatim>\<open>DCHECK\<close> and does not reach
  \<^verbatim>\<open>UNREACHABLE()\<close>, when it is called on a type of its kind whose width is not
  \<^verbatim>\<open>kNone\<close>; and \<^verbatim>\<open>Decode\<close> returns when every declared operand position of the
  instruction meets \<open>operand_contract\<close>.
\<close>

theorem assertions_hold:
  "(\<not> IsUnsignedOperandType md t \<and> SizeOfOperand md t s \<noteq> OperandSize.kNone \<longrightarrow>
      (\<exists>v. DecodeSignedOperand md mem p t s = Inr v))
   \<and> (IsUnsignedOperandType md t \<and> SizeOfOperand md t s \<noteq> OperandSize.kNone \<longrightarrow>
      (\<exists>v. DecodeUnsignedOperand md mem p t s = Inr v))
   \<and> (IsRegisterOperandType md t \<and> \<not> IsUnsignedOperandType md t
       \<and> SizeOfOperand md t s \<noteq> OperandSize.kNone \<longrightarrow>
      (\<exists>r. DecodeRegisterOperand md mem p t s = Inr r))
   \<and> ((\<forall>k. 0 \<le> k \<and> k < NumberOfOperands md (bytecode_of md mem) \<longrightarrow>
           operand_contract md (GetOperandType md (bytecode_of md mem) k)
             (operand_scale_of md mem)) \<longrightarrow>
      (\<exists>os'. Decode md os mem parameter_count = Inr os'))"
  using DecodeSignedOperand_succeeds [of md t s mem p]
    DecodeUnsignedOperand_succeeds [of md t s mem p]
    DecodeRegisterOperand_succeeds [of md t s mem p]
  by (auto simp: Decode_eq decoded_def operands_error_None)

theorem assertions_hold_witness:
  "(\<exists>v. DecodeSignedOperand sample_env (bytes [0x0C, 0x05]) 1 kImm kSingle = Inr v)
   \<and> (\<exists>v. DecodeUnsignedOperand sample_env (bytes [0x0C, 0x05]) 1 kIdx kSingle = Inr v)
   \<and> (\<exists>r. DecodeRegisterOperand sample_env (bytes [0x0C, 0x05]) 1 kReg kSingle = Inr r)
   \<and> (\<exists>os'. Decode sample_env cout (bytes [0x0C, 0x05]) 0 = Inr os')
   \<and> (\<exists>os'. Decode sample_env cout (bytes [0x50, 0x12, 0x01, 0xFF, 0x02, 0xFD]) 0 = Inr os')"
proof -
  have h: "\<not> IsUnsignedOperandType sample_env kImm" "IsUnsignedOperandType sample_env kIdx"
    "IsRegisterOperandType sample_env kReg" "\<not> IsUnsignedOperandType sample_env kReg"
    "SizeOfOperand sample_env kImm kSingle \<noteq> OperandSize.kNone"
    "SizeOfOperand sample_env kIdx kSingle \<noteq> OperandSize.kNone"
    "SizeOfOperand sample_env kReg kSingle \<noteq> OperandSize.kNone"
    by (simp_all add: sample_env_def)
  show ?thesis
    using assertions_hold [of sample_env kImm kSingle "bytes [0x0C, 0x05]" 1 cout 0]
      assertions_hold [of sample_env kIdx kSingle "bytes [0x0C, 0x05]" 1 cout 0]
      assertions_hold [of sample_env kReg kSingle "bytes [0x0C, 0x05]" 1 cout 0]
      assertions_hold [of sample_env kReg kSingle
        "bytes [0x50, 0x12, 0x01, 0xFF, 0x02, 0xFD]" 1 cout 0]
      h sample_env_contract
    by simp
qed

text \<open>
  C7. The outcome of \<^verbatim>\<open>Decode\<close> is fixed by the opcode table, the buffer and the
  parameter count: there is one result, an abort or a text, such that on every stream,
  whatever was written to it and whatever its formatting state, \<^verbatim>\<open>Decode\<close> ends in that
  abort or appends that text. So a second run, on the stream the first one left, appends
  the same text, with the same number of hex groups.
\<close>

theorem Decode_deterministic:
  "\<exists>r. \<forall>os. map_sum id sink (Decode md os mem parameter_count)
              = map_sum id (\<lambda>text. sink os @ text) r"
proof -
  let ?e = "if IsDebugBreak md (bytecode_of md mem) then None
            else operands_error md mem (prefix_offset_of md mem) (operand_scale_of md mem)
                   (bytecode_of md mem)"
  let ?t = "instruction_text md mem parameter_count (prefix_offset_of md mem)
              (operand_scale_of md mem) (bytecode_of md mem)"
  let ?r = "case ?e of Some e \<Rightarrow> Inl e | None \<Rightarrow> Inr ?t"
  have "map_sum id sink (Decode md os mem parameter_count)
          = map_sum id (\<lambda>text. sink os @ text) ?r" for os
    by (simp add: Decode_eq decoded_def split: option.splits)
  then show ?thesis by blast
qed

text \<open>
  C8. For an opcode that is not a debug break, the operands follow the mnemonic in
  declared order, each in the form \<open>operand_text\<close> gives for its type: \<^verbatim>\<open>#\<close> and the
  unsigned value for a count or a flag; the unsigned value in brackets for an index, a
  runtime id or an intrinsic id; the signed value in brackets for an immediate; the
  register's name for the parameter count for a plain, out or maybe register. They are
  joined by \<^verbatim>\<open>", "\<close>, with none after the last. Every decoder called returned a value.
\<close>

theorem operands_in_declared_order:
  assumes "Decode md os mem parameter_count = Inr os'"
    and "\<not> IsDebugBreak md (bytecode_of md mem)"
  defines "prefix_offset \<equiv> prefix_offset_of md mem"
    and "scale \<equiv> operand_scale_of md mem"
    and "bytecode \<equiv> bytecode_of md mem"
  defines "n \<equiv> prefix_offset + Size md bytecode scale"
    and "operand_start \<equiv> \<lambda>k. prefix_offset + GetOperandOffset md bytecode k scale"
  shows "sink os' = sink os @ hex_groups mem 0 n @ blank_groups n
           @ ToString md bytecode scale @ '' ''
           @ join_sep '', ''
               (map (\<lambda>k. operand_text md mem parameter_count (operand_start k)
                            (GetOperandType md bytecode k) scale (range_sum md bytecode 0 k))
                  [0..NumberOfOperands md bytecode - 1])
       \<and> (\<forall>k \<in> set [0..NumberOfOperands md bytecode - 1].
             operand_error md mem (operand_start k) (GetOperandType md bytecode k) scale = None)"
proof -
  have "operands_error md mem prefix_offset scale bytecode = None"
    unfolding prefix_offset_def scale_def bytecode_def
    using assms(1,2) by (rule Decode_Inr_no_error)
  then have "\<forall>k \<in> set [0..NumberOfOperands md bytecode - 1].
      operand_error md mem (operand_start k) (GetOperandType md bytecode k) scale = None"
    by (simp add: operands_error_def first_error_None_iff operand_start_def)
  then show ?thesis
    using Decode_Inr_sink [OF assms(1)] assms(2)
    by (simp add: instruction_text_def operands_text_def n_def prefix_offset_def scale_def
          bytecode_def operand_start_def)
qed

theorem operands_in_declared_order_witness:
  "Decode sample_env cout (bytes [0x50, 0x12, 0x01, 0xFF, 0x02, 0xFD]) 0
     = Inr (cout\<lparr>sink := ''50 12 01 ff 02 fd CallRuntimeForPair [274], r1, #2, r3-r4''\<rparr>)
   \<and> \<not> IsDebugBreak sample_env (bytecode_of sample_env (bytes [0x50, 0x12, 0x01, 0xFF, 0x02, 0xFD]))
   \<and> operands_text sample_env (bytes [0x50, 0x12, 0x01, 0xFF, 0x02, 0xFD]) 0 0 kSingle 0x50
       = ''[274], r1, #2, r3-r4''
   \<and> Decode sample_env cout (bytes [0x71, 0x12, 0x03]) 0
     = Inr (cout\<lparr>sink := ''71 12 03          CreateClosure [18], #3''\<rparr>)
   \<and> \<not> IsDebugBreak sample_env (bytecode_of sample_env (bytes [0x71, 0x12, 0x03]))
   \<and> operands_text sample_env (bytes [0x71, 0x12, 0x03]) 0 0 kSingle 0x71 = ''[18], #3''
   \<and> Decode sample_env cout (bytes [0x0C, 0xFB]) 0
     = Inr (cout\<lparr>sink := ''0c fb             LdaSmi [-5]''\<rparr>)
   \<and> \<not> IsDebugBreak sample_env (bytecode_of sample_env (bytes [0x0C, 0xFB]))
   \<and> operands_text sample_env (bytes [0x0C, 0xFB]) 0 0 kSingle 0x0C = ''[-5]''
   \<and> Decode sample_env cout (bytes [0x1E, 0x02]) 3
     = Inr (cout\<lparr>sink := ''1e 02             Star a1''\<rparr>)
   \<and> \<not> IsDebugBreak sample_env (bytecode_of sample_env (bytes [0x1E, 0x02]))
   \<and> operands_text sample_env (bytes [0x1E, 0x02]) 3 0 kSingle 0x1E = ''a1''"
proof -
  let ?m1 = "bytes [0x50, 0x12, 0x01, 0xFF, 0x02, 0xFD]"
  let ?m2 = "bytes [0x71, 0x12, 0x03]"
  let ?m3 = "bytes [0x0C, 0xFB]"
  let ?m4 = "bytes [0x1E, 0x02]"
  have d1: "Decode sample_env cout ?m1 0
     = Inr (cout\<lparr>sink := ''50 12 01 ff 02 fd CallRuntimeForPair [274], r1, #2, r3-r4''\<rparr>)"
    unfolding Decode_eq by (simp add: sample_simps text_simps)
  have d2: "Decode sample_env cout ?m2 0
     = Inr (cout\<lparr>sink := ''71 12 03          CreateClosure [18], #3''\<rparr>)"
    unfolding Decode_eq by (simp add: sample_simps text_simps)
  have d3: "Decode sample_env cout ?m3 0 = Inr (cout\<lparr>sink := ''0c fb             LdaSmi [-5]''\<rparr>)"
    unfolding Decode_eq by (simp add: sample_simps text_simps)
  have d4: "Decode sample_env cout ?m4 3 = Inr (cout\<lparr>sink := ''1e 02             Star a1''\<rparr>)"
    unfolding Decode_eq by (simp add: sample_simps text_simps)
  have nb: "\<not> IsDebugBreak sample_env (bytecode_of sample_env ?m1)"
    "\<not> IsDebugBreak sample_env (bytecode_of sample_env ?m2)"
    "\<not> IsDebugBreak sample_env (bytecode_of sample_env ?m3)"
    "\<not> IsDebugBreak sample_env (bytecode_of sample_env ?m4)"
    by (simp_all add: bytecode_of_def sample_simps)
  have t: "operands_text sample_env ?m1 0 0 kSingle 0x50 = ''[274], r1, #2, r3-r4''"
    "operands_text sample_env ?m2 0 0 kSingle 0x71 = ''[18], #3''"
    "operands_text sample_env ?m3 0 0 kSingle 0x0C = ''[-5]''"
    "operands_text sample_env ?m4 3 0 kSingle 0x1E = ''a1''"
    by (simp_all add: sample_simps text_simps)
  note operands_in_declared_order [OF d1 nb(1)] operands_in_declared_order [OF d2 nb(2)]
    operands_in_declared_order [OF d3 nb(3)] operands_in_declared_order [OF d4 nb(4)]
  then show ?thesis using d1 d2 d3 d4 nb t by simp
qed

text \<open>
  C9. After the \<open>n\<close> hex groups come exactly \<open>max 0 (6 - n)\<close> groups of three blanks,
  where \<open>n\<close> is the prefix length plus the size; the mnemonic therefore starts at or
  after column \<open>3 * 6\<close> of the line.
\<close>

theorem column_padding:
  assumes "Decode md os mem parameter_count = Inr os'"
  defines "prefix_offset \<equiv> prefix_offset_of md mem"
    and "scale \<equiv> operand_scale_of md mem"
    and "bytecode \<equiv> bytecode_of md mem"
  defines "n \<equiv> prefix_offset + Size md bytecode scale"
  shows "sink os' = sink os @ hex_groups mem 0 n
           @ concat (replicate (nat (max 0 (6 - n))) ''   '')
           @ ToString md bytecode scale @ '' ''
           @ (if IsDebugBreak md bytecode then []
              else operands_text md mem parameter_count prefix_offset scale bytecode)
       \<and> length (hex_groups mem 0 n) = 3 * nat n
       \<and> 3 * 6 \<le> length (hex_groups mem 0 n @ concat (replicate (nat (max 0 (6 - n))) ''   ''))"
proof -
  have pad: "concat (replicate (nat (max 0 (6 - n))) ''   '') = blank_groups n"
    by (simp add: blank_groups_def kBytecodeColumnSize_def max_def)
  have "3 * 6 \<le> length (hex_groups mem 0 n @ blank_groups n)"
    by (simp add: length_hex_groups length_blank_groups kBytecodeColumnSize_def)
  then show ?thesis
    unfolding pad using Decode_Inr_sink [OF assms(1)]
    by (simp add: instruction_text_def length_hex_groups n_def prefix_offset_def scale_def
          bytecode_def)
qed

theorem column_padding_witness:
  "Decode sample_env cout (bytes [0x0C, 0x05]) 0
     = Inr (cout\<lparr>sink := ''0c 05             LdaSmi [5]''\<rparr>)
   \<and> prefix_offset_of sample_env (bytes [0x0C, 0x05])
       + Size sample_env (bytecode_of sample_env (bytes [0x0C, 0x05]))
           (operand_scale_of sample_env (bytes [0x0C, 0x05])) = 2
   \<and> concat (replicate (nat (max 0 (6 - 2))) ''   '') = ''            ''
   \<and> 3 * 6 \<le> length (hex_groups (bytes [0x0C, 0x05]) 0 2
                         @ concat (replicate (nat (max 0 (6 - 2))) ''   ''))
   \<and> Decode sample_env cout (bytes [0x00, 0x50, 0x12, 0x01, 0xFF, 0xFF, 0x02, 0x00, 0xFD, 0xFF]) 0
     = Inr (cout\<lparr>sink :=
         ''00 50 12 01 ff ff 02 00 fd ff CallRuntimeForPair.Wide [274], r1, #2, r3-r4''\<rparr>)
   \<and> concat (replicate (nat (max 0 (6 - 10))) ''   '') = []"
proof -
  let ?m1 = "bytes [0x0C, 0x05]"
  let ?m2 = "bytes [0x00, 0x50, 0x12, 0x01, 0xFF, 0xFF, 0x02, 0x00, 0xFD, 0xFF]"
  have d1: "Decode sample_env cout ?m1 0 = Inr (cout\<lparr>sink := ''0c 05             LdaSmi [5]''\<rparr>)"
    unfolding Decode_eq by (simp add: sample_simps text_simps)
  have d2: "Decode sample_env cout ?m2 0 = Inr (cout\<lparr>sink :=
         ''00 50 12 01 ff ff 02 00 fd ff CallRuntimeForPair.Wide [274], r1, #2, r3-r4''\<rparr>)"
    unfolding Decode_eq by (simp add: sample_simps text_simps)
  have n1: "prefix_offset_of sample_env ?m1
       + Size sample_env (bytecode_of sample_env ?m1) (operand_scale_of sample_env ?m1) = 2"
    by (simp add: prefix_offset_of_def bytecode_of_def operand_scale_of_def sample_simps)
  have n2: "prefix_offset_of sample_env ?m2
       + Size sample_env (bytecode_of sample_env ?m2) (operand_scale_of sample_env ?m2) = 10"
    by (simp add: prefix_offset_of_def bytecode_of_def operand_scale_of_def sample_simps)
  have p: "concat (replicate (nat (max 0 (6 - 2))) ''   '') = ''            ''"
    "concat (replicate (nat (max 0 (6 - 10))) ''   '') = []"
    by (simp_all add: replicate_numeral_eval)
  have c1: "3 * 6 \<le> length (hex_groups ?m1 0 2 @ concat (replicate (nat (max 0 (6 - 2))) ''   ''))"
    using column_padding [OF d1] unfolding n1 by (simp del: length_append)
  have c2: "3 * 6 \<le> length (hex_groups ?m2 0 10 @ concat (replicate (nat (max 0 (6 - 10))) ''   ''))"
    using column_padding [OF d2] unfolding n2 by (simp del: length_append)
  show ?thesis using d1 d2 n1 p c1 c2 by simp
qed

text \<open>
  C10. At a resolved width of four bytes the signed decoder extends nothing: it returns
  the 32-bit word that was read, and so does the unsigned decoder. The two differ at
  narrower widths, as the byte \<^verbatim>\<open>0x80\<close> shows.
\<close>

theorem quad_width_same_bits:
  assumes "\<not> IsUnsignedOperandType md t1" and "SizeOfOperand md t1 s1 = kQuad"
    and "IsUnsignedOperandType md t2" and "SizeOfOperand md t2 s2 = kQuad"
  shows "DecodeSignedOperand md mem p t1 s1 = Inr (ReadUnalignedUInt32 (big_endian md) mem p)
       \<and> DecodeUnsignedOperand md mem p t2 s2 = Inr (ReadUnalignedUInt32 (big_endian md) mem p)
       \<and> DecodeSignedOperand md mem p t1 s1 = DecodeUnsignedOperand md mem p t2 s2"
  using assms by (simp add: DecodeSignedOperand_def DecodeUnsignedOperand_def)

theorem quad_width_same_bits_witness:
  "\<not> IsUnsignedOperandType sample_env kImm \<and> SizeOfOperand sample_env kImm kQuadruple = kQuad
   \<and> IsUnsignedOperandType sample_env kIdx \<and> SizeOfOperand sample_env kIdx kQuadruple = kQuad
   \<and> DecodeSignedOperand sample_env (bytes [0x78, 0x56, 0x34, 0x92]) 0 kImm kQuadruple
       = Inr 0x92345678
   \<and> DecodeUnsignedOperand sample_env (bytes [0x78, 0x56, 0x34, 0x92]) 0 kIdx kQuadruple
       = Inr 0x92345678
   \<and> DecodeSignedOperand sample_env (bytes [0x80]) 0 kImm kSingle = Inr 0xFFFFFF80
   \<and> DecodeUnsignedOperand sample_env (bytes [0x80]) 0 kIdx kSingle = Inr 0x00000080"
proof -
  have h: "\<not> IsUnsignedOperandType sample_env kImm"
    "SizeOfOperand sample_env kImm kQuadruple = kQuad"
    "IsUnsignedOperandType sample_env kIdx"
    "SizeOfOperand sample_env kIdx kQuadruple = kQuad"
    by (simp_all add: sample_env_def)
  have r: "ReadUnalignedUInt32 (big_endian sample_env) (bytes [0x78, 0x56, 0x34, 0x92]) 0
             = 0x92345678"
    by (simp add: ReadUnalignedUInt32_def sample_env_def bytes_def)
  have b: "DecodeSignedOperand sample_env (bytes [0x80]) 0 kImm kSingle = Inr 0xFFFFFF80"
    "DecodeUnsignedOperand sample_env (bytes [0x80]) 0 kIdx kSingle = Inr 0x00000080"
    by (simp_all add: DecodeSignedOperand_def DecodeUnsignedOperand_def sample_env_def bytes_def)
  show ?thesis
    using quad_width_same_bits [OF h, of "bytes [0x78, 0x56, 0x34, 0x92]" 0] h b
    by (simp add: r)
qed

end
